theory Spec2Isabelle
  imports Main
begin

section \<open>Time\<close>

text \<open>
  Instants are Unix times counted in whole seconds, the precision at which the
  token timestamps (\<open>exp\<close>, \<open>iat\<close>, \<open>nbf\<close>) are kept; durations are
  counted in seconds as well. The clock readings that one call of the service
  takes (\<open>time.Now()\<close>, \<open>time.Since\<close>, the validator's clock) are taken
  at the same instant, passed to the model as the argument \<open>now\<close>.
\<close>

type_synonym time = int
type_synonym Duration = int

definition Hour :: Duration where
  "Hour = 3600"

definition NewNumericDate :: "time \<Rightarrow> time" where
  "NewNumericDate t = t"

definition Since :: "time \<Rightarrow> time \<Rightarrow> Duration" where
  "Since now t = now - t"

section \<open>Strings\<close>

text \<open>\<open>strings.Split(s, sep)\<close> for a separator of one character.\<close>

fun Split :: "string \<Rightarrow> char \<Rightarrow> string list" where
  "Split [] sep = [[]]"
| "Split (c # cs) sep =
     (if c = sep then [] # Split cs sep
      else (case Split cs sep of [] \<Rightarrow> [[c]] | p # ps \<Rightarrow> (c # p) # ps))"

text \<open>\<open>strings.Join(elems, sep)\<close>.\<close>

fun Join :: "string list \<Rightarrow> string \<Rightarrow> string" where
  "Join [] sep = []"
| "Join [x] sep = x"
| "Join (x # y # ys) sep = x @ sep @ Join (y # ys) sep"

text \<open>Decimal printing of an integer: \<open>strconv.Itoa\<close> and the verb \<open>%d\<close>.\<close>

function digits :: "int \<Rightarrow> string" where
  "digits n =
     (if n < 10 then [''0123456789'' ! nat n]
      else digits (n div 10) @ [''0123456789'' ! nat (n mod 10)])"
  by pat_completeness auto
termination
  by (relation "measure nat") auto

declare digits.simps [simp del]

definition Itoa :: "int \<Rightarrow> string" where
  "Itoa i = (if i < 0 then CHR ''-'' # digits (- i) else digits i)"

section \<open>The principal: \<open>models.User\<close>\<close>

text \<open>The fields of \<open>models.User\<close> that the token service reads.\<close>

record User =
  ID :: int
  User_Email :: string
  User_Roles :: "string list"

section \<open>Claims and tokens\<close>

text \<open>
  \<open>Claims\<close> with the embedded \<open>jwt.RegisteredClaims\<close> flattened. The three
  timestamps are pointers in the source (\<open>*jwt.NumericDate\<close>), absent when the
  token does not carry them.
\<close>

record Claims =
  UserID :: int
  Email :: string
  Roles :: "string list"
  ExpiresAt :: "time option"
  IssuedAt :: "time option"
  NotBefore :: "time option"
  Issuer :: string
  Subject :: string

text \<open>
  A signing method is either of the HMAC family (\<open>*jwt.SigningMethodHMAC\<close>:
  HS256, HS384, HS512) or of another type (RSA, ECDSA, \<open>none\<close>, ...); the
  argument is the \<open>alg\<close> name.
\<close>

datatype SigningMethod = SigningMethodHMAC string | SigningMethodOther string

definition SigningMethodHS256 :: SigningMethod where
  "SigningMethodHS256 = SigningMethodHMAC ''HS256''"

text \<open>
  \<open>jwt.Token\<close>: the method of the header, the claims of the payload, the text
  that is signed (the first two segments joined by a dot), the signature segment
  and the flag \<open>Valid\<close>.
\<close>

record Token =
  Method :: SigningMethod
  TokenClaims :: Claims
  SigningInput :: string
  Signature :: string
  Valid :: bool

datatype claim_error = ErrTokenExpired | ErrTokenNotValidYet

datatype jwt_error =
    ErrTokenMalformed
  | ErrTokenUnverifiable
  | ErrTokenSignatureInvalid
  | ErrTokenInvalidClaims "claim_error list"

section \<open>The token library\<close>

text \<open>
  The package \<open>github.com/golang-jwt/jwt/v5\<close> is not part of the repository.
  Its serialisation and its MAC are parameters of the model:
  \<^item> \<open>SigningString m c\<close> is the encoded header and payload of a token with
    method \<open>m\<close> and claims \<open>c\<close>;
  \<^item> \<open>Sign m text key\<close> is the encoded signature of \<open>text\<close> under \<open>key\<close>;
  \<^item> \<open>ParseUnverified s\<close> splits and decodes a token string (the signature
    segment too) without checking anything, failing on a string that is no
    token or names no known method.
  What the library does with them (the order of the checks, the comparison of
  the timestamps with the clock) is written out below.
\<close>

record jwt_library =
  SigningString :: "SigningMethod \<Rightarrow> Claims \<Rightarrow> string"
  Sign :: "SigningMethod \<Rightarrow> string \<Rightarrow> string \<Rightarrow> string"
  ParseUnverified :: "string \<Rightarrow> jwt_error + Token"

definition NewWithClaims :: "SigningMethod \<Rightarrow> Claims \<Rightarrow> Token" where
  "NewWithClaims m c =
     \<lparr>Method = m, TokenClaims = c, SigningInput = [], Signature = [], Valid = False\<rparr>"

text \<open>\<open>Token.SignedString(key)\<close>: the signing string, a dot, the signature.\<close>

definition SignedString :: "jwt_library \<Rightarrow> Token \<Rightarrow> string \<Rightarrow> jwt_error + string" where
  "SignedString L token key =
     (let sstr = SigningString L (Method token) (TokenClaims token)
      in Inr (sstr @ ''.'' @ Sign L (Method token) sstr key))"

text \<open>
  The validator of the library with its default options: \<open>exp\<close> and \<open>nbf\<close> are
  checked when present, \<open>iat\<close> is not checked, and the failures are collected.
\<close>

definition verifyExpiresAt :: "Claims \<Rightarrow> time \<Rightarrow> claim_error list" where
  "verifyExpiresAt c now =
     (case ExpiresAt c of None \<Rightarrow> []
      | Some exp \<Rightarrow> if now < exp then [] else [ErrTokenExpired])"

definition verifyNotBefore :: "Claims \<Rightarrow> time \<Rightarrow> claim_error list" where
  "verifyNotBefore c now =
     (case NotBefore c of None \<Rightarrow> []
      | Some nbf \<Rightarrow> if \<not> now < nbf then [] else [ErrTokenNotValidYet])"

definition Validate :: "time \<Rightarrow> Claims \<Rightarrow> claim_error list" where
  "Validate now c = verifyExpiresAt c now @ verifyNotBefore c now"

text \<open>
  \<open>jwt.ParseWithClaims(tokenString, claims, keyFunc)\<close>: parse, ask \<open>keyFunc\<close>
  for the key, verify the signature, validate the claims, and only then set
  \<open>Valid\<close>.
\<close>

definition ParseWithClaims ::
  "jwt_library \<Rightarrow> time \<Rightarrow> string \<Rightarrow> (Token \<Rightarrow> string option) \<Rightarrow> jwt_error + Token" where
  "ParseWithClaims L now tokenString keyFunc =
     (case ParseUnverified L tokenString of
        Inl e \<Rightarrow> Inl e
      | Inr token \<Rightarrow>
          (case keyFunc token of
             None \<Rightarrow> Inl ErrTokenUnverifiable
           | Some key \<Rightarrow>
               if Sign L (Method token) (SigningInput token) key \<noteq> Signature token
               then Inl ErrTokenSignatureInvalid
               else (case Validate now (TokenClaims token) of
                       [] \<Rightarrow> Inr (token\<lparr>Valid := True\<rparr>)
                     | e # es \<Rightarrow> Inl (ErrTokenInvalidClaims (e # es)))))"

section \<open>The token service: \<open>JWTService\<close>\<close>

record JWTService =
  secret :: string

datatype error =
    FailedToSign jwt_error
  | FailedToParse jwt_error
  | InvalidToken
  | CannotRefresh error
  | TokenTooOld
  | NilPointerDereference

definition NewJWTService :: "string \<Rightarrow> JWTService" where
  "NewJWTService s = \<lparr>secret = s\<rparr>"

text \<open>The claims that \<open>GenerateToken\<close> builds for a user.\<close>

definition GenerateToken_claims :: "time \<Rightarrow> User \<Rightarrow> Claims" where
  "GenerateToken_claims now user =
     \<lparr>UserID = ID user,
      Email = User_Email user,
      Roles = User_Roles user,
      ExpiresAt = Some (NewNumericDate (now + 24 * Hour)),
      IssuedAt = Some (NewNumericDate now),
      NotBefore = Some (NewNumericDate now),
      Issuer = ''goapp'',
      Subject = ''user_'' @ Itoa (ID user)\<rparr>"

definition GenerateToken :: "jwt_library \<Rightarrow> JWTService \<Rightarrow> time \<Rightarrow> User \<Rightarrow> error + string" where
  "GenerateToken L j now user =
     (let claims = GenerateToken_claims now user;
          token = NewWithClaims SigningMethodHS256 claims
      in case SignedString L token (secret j) of
           Inl err \<Rightarrow> Inl (FailedToSign err)
         | Inr tokenString \<Rightarrow> Inr tokenString)"

text \<open>
  The key function of \<open>ValidateToken\<close>: the secret for a method of the HMAC
  family, an error for any other method.
\<close>

fun ValidateToken_keyFunc :: "JWTService \<Rightarrow> Token \<Rightarrow> string option" where
  "ValidateToken_keyFunc j token =
     (case Method token of
        SigningMethodHMAC alg \<Rightarrow> Some (secret j)
      | SigningMethodOther alg \<Rightarrow> None)"

text \<open>
  The last check of the source, the type assertion \<open>token.Claims.(*Claims)\<close>,
  holds of every token parsed into a \<open>Claims\<close> value and has no branch here.
\<close>

definition ValidateToken :: "jwt_library \<Rightarrow> JWTService \<Rightarrow> time \<Rightarrow> string \<Rightarrow> error + Claims" where
  "ValidateToken L j now tokenString =
     (case ParseWithClaims L now tokenString (ValidateToken_keyFunc j) of
        Inl err \<Rightarrow> Inl (FailedToParse err)
      | Inr token \<Rightarrow>
          if \<not> Valid token then Inl InvalidToken
          else Inr (TokenClaims token))"

text \<open>The claims that \<open>RefreshToken\<close> builds from those of the old token.\<close>

definition RefreshToken_newClaims :: "time \<Rightarrow> Claims \<Rightarrow> Claims" where
  "RefreshToken_newClaims now claims =
     \<lparr>UserID = UserID claims,
      Email = Email claims,
      Roles = Roles claims,
      ExpiresAt = Some (NewNumericDate (now + 24 * Hour)),
      IssuedAt = Some (NewNumericDate now),
      NotBefore = Some (NewNumericDate now),
      Issuer = ''auth-app'',
      Subject = Subject claims\<rparr>"

text \<open>
  \<open>claims.IssuedAt.Time\<close> dereferences the pointer: on a token without \<open>iat\<close>
  the source panics.
\<close>

definition RefreshToken :: "jwt_library \<Rightarrow> JWTService \<Rightarrow> time \<Rightarrow> string \<Rightarrow> error + string" where
  "RefreshToken L j now oldToken =
     (case ValidateToken L j now oldToken of
        Inl err \<Rightarrow> Inl (CannotRefresh err)
      | Inr claims \<Rightarrow>
          (case IssuedAt claims of
             None \<Rightarrow> Inl NilPointerDereference
           | Some iat \<Rightarrow>
               if Since now iat > 7 * 24 * Hour then Inl TokenTooOld
               else (let newClaims = RefreshToken_newClaims now claims;
                         token = NewWithClaims SigningMethodHS256 newClaims
                     in case SignedString L token (secret j) of
                          Inl err \<Rightarrow> Inl (FailedToSign err)
                        | Inr tokenString \<Rightarrow> Inr tokenString)))"

section \<open>Requests, responses and the request context\<close>

text \<open>
  A context key is a value of the package's own string type \<open>ContextKey\<close>. A
  context value is an \<open>interface{}\<close>: the model keeps the dynamic types that
  the type assertions of the package tell apart.
\<close>

datatype ContextKey = ContextKey string

definition UserIDKey :: ContextKey where
  "UserIDKey = ContextKey ''user_id''"

definition UserEmailKey :: ContextKey where
  "UserEmailKey = ContextKey ''user_email''"

definition UserRolesKey :: ContextKey where
  "UserRolesKey = ContextKey ''user_roles''"

datatype any = AnyInt int | AnyString string | AnyStringSlice "string list"

type_synonym Ctx = "ContextKey \<rightharpoonup> any"

definition WithValue :: "Ctx \<Rightarrow> ContextKey \<Rightarrow> any \<Rightarrow> Ctx" where
  "WithValue ctx key val = ctx(key \<mapsto> val)"

definition Value :: "Ctx \<Rightarrow> ContextKey \<Rightarrow> any option" where
  "Value ctx key = ctx key"

record Request =
  Header :: "string \<rightharpoonup> string list"
  Context :: Ctx

definition WithContext :: "Request \<Rightarrow> Ctx \<Rightarrow> Request" where
  "WithContext r ctx = r\<lparr>Context := ctx\<rparr>"

text \<open>\<open>Header.Get(key)\<close>: the first value stored under the key, or the empty string.\<close>

definition Header_Get :: "(string \<rightharpoonup> string list) \<Rightarrow> string \<Rightarrow> string" where
  "Header_Get h key = (case h key of None \<Rightarrow> [] | Some [] \<Rightarrow> [] | Some (v # vs) \<Rightarrow> v)"

text \<open>
  The response under construction: the status code once it has been written,
  and the body. A handler takes the writer and the request and returns the writer.
\<close>

record ResponseWriter =
  StatusCode :: "nat option"
  Body :: string

type_synonym HandlerFunc = "ResponseWriter \<Rightarrow> Request \<Rightarrow> ResponseWriter"

definition StatusUnauthorized :: nat where
  "StatusUnauthorized = 401"

definition StatusForbidden :: nat where
  "StatusForbidden = 403"

definition StatusInternalServerError :: nat where
  "StatusInternalServerError = 500"

definition WriteHeader :: "ResponseWriter \<Rightarrow> nat \<Rightarrow> ResponseWriter" where
  "WriteHeader w code = (case StatusCode w of None \<Rightarrow> w\<lparr>StatusCode := Some code\<rparr> | Some c \<Rightarrow> w)"

text \<open>\<open>http.Error(w, error, code)\<close>: the status code, then the message and a newline.\<close>

definition http_Error :: "ResponseWriter \<Rightarrow> string \<Rightarrow> nat \<Rightarrow> ResponseWriter" where
  "http_Error w err code =
     (let w1 = WriteHeader w code in w1\<lparr>Body := Body w1 @ err @ [CHR 0x0A]\<rparr>)"

section \<open>The guards: \<open>Middleware\<close>\<close>

record Middleware =
  jwtService :: JWTService

definition NewMiddleware :: "JWTService \<Rightarrow> Middleware" where
  "NewMiddleware j = \<lparr>jwtService = j\<rparr>"

definition RequireAuth ::
  "jwt_library \<Rightarrow> Middleware \<Rightarrow> time \<Rightarrow> HandlerFunc \<Rightarrow> HandlerFunc" where
  "RequireAuth L m now next w r =
     (let authHeader = Header_Get (Header r) ''Authorization'' in
      if authHeader = [] then http_Error w ''Authorization header required'' StatusUnauthorized
      else
        let parts = Split authHeader CHR '' '' in
        if length parts \<noteq> 2 \<or> parts ! 0 \<noteq> ''Bearer''
        then http_Error w ''Invalid authorization header format'' StatusUnauthorized
        else
          let tokenString = parts ! 1 in
          case ValidateToken L (jwtService m) now tokenString of
            Inl err \<Rightarrow> http_Error w ''Invalid or expired token'' StatusUnauthorized
          | Inr claims \<Rightarrow>
              let ctx = WithValue (Context r) UserIDKey (AnyInt (UserID claims));
                  ctx = WithValue ctx UserEmailKey (AnyString (Email claims));
                  ctx = WithValue ctx UserRolesKey (AnyStringSlice (Roles claims))
              in next w (WithContext r ctx))"

text \<open>The loop of \<open>RequireRole\<close> over the user's roles, left at the first match.\<close>

fun RequireRole_hasRole :: "string \<Rightarrow> string list \<Rightarrow> bool" where
  "RequireRole_hasRole role [] = False"
| "RequireRole_hasRole role (userRole # roles) =
     (if userRole = role then True else RequireRole_hasRole role roles)"

text \<open>The handler that \<open>RequireRole\<close> hands to \<open>RequireAuth\<close>.\<close>

definition RequireRole_handler :: "string \<Rightarrow> HandlerFunc \<Rightarrow> HandlerFunc" where
  "RequireRole_handler role next w r =
     (case Value (Context r) UserRolesKey of
        Some (AnyStringSlice roles) \<Rightarrow>
          if \<not> RequireRole_hasRole role roles
          then http_Error w ''Insufficient permissions'' StatusForbidden
          else next w r
      | _ \<Rightarrow> http_Error w ''Unable to verify user roles'' StatusInternalServerError)"

definition RequireRole ::
  "jwt_library \<Rightarrow> Middleware \<Rightarrow> time \<Rightarrow> string \<Rightarrow> HandlerFunc \<Rightarrow> HandlerFunc" where
  "RequireRole L m now role next = RequireAuth L m now (RequireRole_handler role next)"

text \<open>
  The two loops of \<open>RequireAnyRole\<close>: the inner one over the allowed roles, the
  outer one over the user's roles, each left at the first match.
\<close>

fun RequireAnyRole_inner :: "string \<Rightarrow> string list \<Rightarrow> bool" where
  "RequireAnyRole_inner userRole [] = False"
| "RequireAnyRole_inner userRole (allowedRole # allowedRoles) =
     (if userRole = allowedRole then True else RequireAnyRole_inner userRole allowedRoles)"

fun RequireAnyRole_hasRole :: "string list \<Rightarrow> string list \<Rightarrow> bool" where
  "RequireAnyRole_hasRole allowedRoles [] = False"
| "RequireAnyRole_hasRole allowedRoles (userRole # roles) =
     (if RequireAnyRole_inner userRole allowedRoles then True
      else RequireAnyRole_hasRole allowedRoles roles)"

definition RequireAnyRole_handler :: "string list \<Rightarrow> HandlerFunc \<Rightarrow> HandlerFunc" where
  "RequireAnyRole_handler allowedRoles next w r =
     (case Value (Context r) UserRolesKey of
        Some (AnyStringSlice roles) \<Rightarrow>
          if \<not> RequireAnyRole_hasRole allowedRoles roles
          then http_Error w ''Insufficient permissions'' StatusForbidden
          else next w r
      | _ \<Rightarrow> http_Error w ''Unable to verify user roles'' StatusInternalServerError)"

definition RequireAnyRole ::
  "jwt_library \<Rightarrow> Middleware \<Rightarrow> time \<Rightarrow> string list \<Rightarrow> HandlerFunc \<Rightarrow> HandlerFunc" where
  "RequireAnyRole L m now allowedRoles next =
     RequireAuth L m now (RequireAnyRole_handler allowedRoles next)"

definition GetUserIDFromContext :: "Ctx \<Rightarrow> int \<times> bool" where
  "GetUserIDFromContext ctx =
     (case Value ctx UserIDKey of Some (AnyInt userID) \<Rightarrow> (userID, True) | _ \<Rightarrow> (0, False))"

definition GetUserEmailFromContext :: "Ctx \<Rightarrow> string \<times> bool" where
  "GetUserEmailFromContext ctx =
     (case Value ctx UserEmailKey of Some (AnyString email) \<Rightarrow> (email, True) | _ \<Rightarrow> ([], False))"

definition GetUserRolesFromContext :: "Ctx \<Rightarrow> string list \<times> bool" where
  "GetUserRolesFromContext ctx =
     (case Value ctx UserRolesKey of Some (AnyStringSlice roles) \<Rightarrow> (roles, True) | _ \<Rightarrow> ([], False))"

section \<open>Notions of the statements\<close>

text \<open>
  \<open>well_signed L key s m c\<close>: the string \<open>s\<close> is a token with method \<open>m\<close> and
  claims \<open>c\<close> whose signature is the one that \<open>key\<close> gives.
\<close>

definition well_signed ::
  "jwt_library \<Rightarrow> string \<Rightarrow> string \<Rightarrow> SigningMethod \<Rightarrow> Claims \<Rightarrow> bool" where
  "well_signed L key s m c =
     (case ParseUnverified L s of
        Inl e \<Rightarrow> False
      | Inr t \<Rightarrow>
          Method t = m \<and> TokenClaims t = c \<and> Signature t = Sign L m (SigningInput t) key)"

text \<open>
  \<open>reads_back L key c\<close>: the library parses the token that it writes for the
  claims \<open>c\<close> under \<open>key\<close> back into the same method, claims and signature.
\<close>

definition reads_back :: "jwt_library \<Rightarrow> string \<Rightarrow> Claims \<Rightarrow> bool" where
  "reads_back L key c =
     (case SignedString L (NewWithClaims SigningMethodHS256 c) key of
        Inl e \<Rightarrow> False
      | Inr s \<Rightarrow> well_signed L key s SigningMethodHS256 c)"

text \<open>
  \<open>bearer h tok\<close>: the header value \<open>h\<close> is the word \<open>Bearer\<close>, one space and
  the credential \<open>tok\<close>, which holds no space.
\<close>

definition bearer :: "string \<Rightarrow> string \<Rightarrow> bool" where
  "bearer h tok = (h = ''Bearer '' @ tok \<and> CHR '' '' \<notin> set tok)"

text \<open>The request as \<open>RequireAuth\<close> hands it on for the claims \<open>c\<close>.\<close>

definition authenticated :: "Request \<Rightarrow> Claims \<Rightarrow> Request" where
  "authenticated r c =
     r\<lparr>Context := (Context r)(UserIDKey \<mapsto> AnyInt (UserID c),
                                UserEmailKey \<mapsto> AnyString (Email c),
                                UserRolesKey \<mapsto> AnyStringSlice (Roles c))\<rparr>"

text \<open>
  What a guard does with a request, whatever the wrapped operation is: it
  answers with an error, or it calls the operation on a request.
\<close>

datatype decision = Deny string nat | Allow Request

fun enact :: "decision \<Rightarrow> HandlerFunc \<Rightarrow> ResponseWriter \<Rightarrow> ResponseWriter" where
  "enact (Deny msg code) next w = http_Error w msg code"
| "enact (Allow r) next w = next w r"

fun denied_with :: "decision \<Rightarrow> nat option" where
  "denied_with (Deny msg code) = Some code"
| "denied_with (Allow r) = None"




section \<open>An executable instance of the library\<close>

text \<open>
  To run the service on concrete inputs the parameters of the library are
  instantiated with a small serialisation: the header is the name of the method,
  the payload is the list of the claims separated by commas, both segments are
  written in hexadecimal, and the signature is a checksum of the method, the key
  and the signed text.
\<close>

definition Alg :: "SigningMethod \<Rightarrow> string" where
  "Alg m = (case m of SigningMethodHMAC a \<Rightarrow> a | SigningMethodOther a \<Rightarrow> a)"

definition hexdigit :: "nat \<Rightarrow> char" where
  "hexdigit n = ''0123456789abcdef'' ! n"

fun EncodeSegment :: "string \<Rightarrow> string" where
  "EncodeSegment [] = []"
| "EncodeSegment (c # cs) =
     hexdigit (of_char c div 16) # hexdigit (of_char c mod 16) # EncodeSegment cs"

definition hexvalue :: "char \<Rightarrow> nat option" where
  "hexvalue c =
     (let n = of_char c in
      if 48 \<le> n \<and> n \<le> 57 then Some (n - 48)
      else if 97 \<le> n \<and> n \<le> 102 then Some (n - 87)
      else None)"

fun DecodeSegment :: "string \<Rightarrow> string option" where
  "DecodeSegment [] = Some []"
| "DecodeSegment [a] = None"
| "DecodeSegment (a # b # cs) =
     (case (hexvalue a, hexvalue b, DecodeSegment cs) of
        (Some x, Some y, Some r) \<Rightarrow> Some (char_of (16 * x + y) # r)
      | _ \<Rightarrow> None)"

fun Atoi_digits :: "string \<Rightarrow> int \<Rightarrow> int option" where
  "Atoi_digits [] acc = Some acc"
| "Atoi_digits (c # cs) acc =
     (let n = of_char c in
      if 48 \<le> n \<and> n \<le> (57::int) then Atoi_digits cs (10 * acc + (n - 48)) else None)"

definition Atoi :: "string \<Rightarrow> int option" where
  "Atoi s =
     (case s of
        [] \<Rightarrow> None
      | c # cs \<Rightarrow>
          if c = CHR ''-'' then (if cs = [] then None else map_option uminus (Atoi_digits cs 0))
          else Atoi_digits s 0)"

definition demo_time :: "time option \<Rightarrow> string" where
  "demo_time t = (case t of None \<Rightarrow> [] | Some x \<Rightarrow> Itoa x)"

definition demo_untime :: "string \<Rightarrow> time option option" where
  "demo_untime s = (if s = [] then Some None else map_option Some (Atoi s))"

definition demo_payload :: "Claims \<Rightarrow> string" where
  "demo_payload c =
     Join [Itoa (UserID c), Email c, Join (Roles c) '';'', demo_time (ExpiresAt c),
           demo_time (IssuedAt c), demo_time (NotBefore c), Issuer c, Subject c] '',''"

definition demo_unpayload :: "string \<Rightarrow> Claims option" where
  "demo_unpayload s =
     (let fields = Split s CHR '','' in
      if length fields \<noteq> 8 then None
      else
        case (Atoi (fields ! 0), demo_untime (fields ! 3), demo_untime (fields ! 4),
              demo_untime (fields ! 5)) of
          (Some uid, Some exp, Some iat, Some nbf) \<Rightarrow>
            Some \<lparr>UserID = uid, Email = fields ! 1,
                  Roles = (if fields ! 2 = [] then [] else Split (fields ! 2) CHR '';''),
                  ExpiresAt = exp, IssuedAt = iat, NotBefore = nbf,
                  Issuer = fields ! 6, Subject = fields ! 7\<rparr>
        | _ \<Rightarrow> None)"

definition demo_method :: "string \<Rightarrow> SigningMethod option" where
  "demo_method a =
     (if a \<in> set [''HS256'', ''HS384'', ''HS512''] then Some (SigningMethodHMAC a)
      else if a \<in> set [''RS256'', ''ES256'', ''none''] then Some (SigningMethodOther a)
      else None)"

definition demo_SigningString :: "SigningMethod \<Rightarrow> Claims \<Rightarrow> string" where
  "demo_SigningString m c = EncodeSegment (Alg m) @ ''.'' @ EncodeSegment (demo_payload c)"

definition demo_Sign :: "SigningMethod \<Rightarrow> string \<Rightarrow> string \<Rightarrow> string" where
  "demo_Sign m text key = digits (sum_list (map of_char (Alg m @ key @ text)))"

definition demo_ParseUnverified :: "string \<Rightarrow> jwt_error + Token" where
  "demo_ParseUnverified s =
     (let parts = Split s CHR ''.'' in
      if length parts \<noteq> 3 then Inl ErrTokenMalformed
      else
        case (DecodeSegment (parts ! 0), DecodeSegment (parts ! 1)) of
          (Some h, Some p) \<Rightarrow>
            (case demo_unpayload p of
               None \<Rightarrow> Inl ErrTokenMalformed
             | Some c \<Rightarrow>
                 (case demo_method h of
                    None \<Rightarrow> Inl ErrTokenUnverifiable
                  | Some m \<Rightarrow>
                      Inr \<lparr>Method = m, TokenClaims = c,
                           SigningInput = parts ! 0 @ ''.'' @ parts ! 1,
                           Signature = parts ! 2, Valid = False\<rparr>))
        | _ \<Rightarrow> Inl ErrTokenMalformed)"

definition demo_library :: jwt_library where
  "demo_library =
     \<lparr>SigningString = demo_SigningString, Sign = demo_Sign,
      ParseUnverified = demo_ParseUnverified\<rparr>"

text \<open>A principal, a service, a guard, a fresh response and a wrapped operation.\<close>

definition alice :: User where
  "alice = \<lparr>ID = 7, User_Email = ''al@x.io'', User_Roles = [''user'', ''editor'']\<rparr>"

definition svc :: JWTService where
  "svc = NewJWTService ''s3cret''"

definition guard :: Middleware where
  "guard = NewMiddleware svc"

definition fresh :: ResponseWriter where
  "fresh = \<lparr>StatusCode = None, Body = []\<rparr>"

definition operation :: HandlerFunc where
  "operation w r = (WriteHeader w 200)\<lparr>Body := ''ok''\<rparr>"

definition request_with :: "string \<Rightarrow> Request" where
  "request_with h = \<lparr>Header = [''Authorization'' \<mapsto> [h]], Context = Map.empty\<rparr>"

definition request_without :: Request where
  "request_without = \<lparr>Header = Map.empty, Context = Map.empty\<rparr>"

text \<open>
  The token that the instance writes for \<open>alice\<close> at the instant 1000, and a
  token signed with the same secret whose claims are valid for a long time.
\<close>

definition alice_token :: string where
  "alice_token =
     ''4853323536.372c616c40782e696f2c757365723b656469746f722c38373430302c313030302c313030302c676f6170702c757365725f37.7346''"

definition stale_claims :: Claims where
  "stale_claims =
     \<lparr>UserID = 7, Email = ''al@x.io'', Roles = [''user''], ExpiresAt = Some 1000000,
      IssuedAt = Some 0, NotBefore = Some 0, Issuer = ''goapp'', Subject = ''user_7''\<rparr>"

definition stale_token :: string where
  "stale_token =
     ''4853323536.372c616c40782e696f2c757365722c313030303030302c302c302c676f6170702c757365725f37.6089''"

section \<open>The token service: auxiliary facts\<close>

lemma Hour_pos: "0 < Hour"
  by (simp add: Hour_def)

lemma Validate_Nil_iff:
  "Validate now c = [] \<longleftrightarrow>
     (\<forall>exp. ExpiresAt c = Some exp \<longrightarrow> now < exp) \<and> (\<forall>nbf. NotBefore c = Some nbf \<longrightarrow> nbf \<le> now)"
  by (auto simp: Validate_def verifyExpiresAt_def verifyNotBefore_def split: option.splits)

lemma ValidateToken_well_signed:
  assumes "well_signed L (secret j) s (SigningMethodHMAC a) c"
  shows "ValidateToken L j now s =
           (if Validate now c = [] then Inr c
            else Inl (FailedToParse (ErrTokenInvalidClaims (Validate now c))))"
proof -
  from assms obtain t where t: "ParseUnverified L s = Inr t" "Method t = SigningMethodHMAC a"
      "TokenClaims t = c" "Signature t = Sign L (SigningMethodHMAC a) (SigningInput t) (secret j)"
    by (auto simp: well_signed_def split: sum.splits)
  show ?thesis
    by (cases "Validate now c") (simp_all add: ValidateToken_def ParseWithClaims_def t)
qed

lemma GenerateToken_SignedString:
  "GenerateToken L j now P =
     Inr (SigningString L SigningMethodHS256 (GenerateToken_claims now P) @ ''.'' @
          Sign L SigningMethodHS256
            (SigningString L SigningMethodHS256 (GenerateToken_claims now P)) (secret j))"
  by (simp add: GenerateToken_def SignedString_def NewWithClaims_def Let_def)

lemma reads_back_well_signed:
  "reads_back L key c \<Longrightarrow>
     well_signed L key
       (SigningString L SigningMethodHS256 c @ ''.'' @
        Sign L SigningMethodHS256 (SigningString L SigningMethodHS256 c) key)
       SigningMethodHS256 c"
  by (simp add: reads_back_def SignedString_def NewWithClaims_def Let_def)

lemma RefreshToken_success:
  assumes "ValidateToken L j now s = Inr c" "IssuedAt c = Some iat" "now - iat \<le> 7 * 24 * Hour"
  shows "RefreshToken L j now s =
     Inr (SigningString L SigningMethodHS256 (RefreshToken_newClaims now c) @ ''.'' @
          Sign L SigningMethodHS256
            (SigningString L SigningMethodHS256 (RefreshToken_newClaims now c)) (secret j))"
  using assms
  by (simp add: RefreshToken_def Since_def SignedString_def NewWithClaims_def Let_def)

lemma Validate_newClaims: "Validate now (RefreshToken_newClaims now c) = []"
  using Hour_pos by (simp add: Validate_Nil_iff RefreshToken_newClaims_def NewNumericDate_def)

lemma ValidateToken_refreshed:
  assumes "reads_back L (secret j) (RefreshToken_newClaims now c)"
  shows "ValidateToken L j now
           (SigningString L SigningMethodHS256 (RefreshToken_newClaims now c) @ ''.'' @
            Sign L SigningMethodHS256
              (SigningString L SigningMethodHS256 (RefreshToken_newClaims now c)) (secret j))
         = Inr (RefreshToken_newClaims now c)"
proof -
  have "well_signed L (secret j)
           (SigningString L SigningMethodHS256 (RefreshToken_newClaims now c) @ ''.'' @
            Sign L SigningMethodHS256
              (SigningString L SigningMethodHS256 (RefreshToken_newClaims now c)) (secret j))
           (SigningMethodHMAC ''HS256'') (RefreshToken_newClaims now c)"
    using reads_back_well_signed [OF assms] by (simp add: SigningMethodHS256_def)
  from ValidateToken_well_signed [OF this, of now] show ?thesis
    by (simp add: Validate_newClaims)
qed

lemma refresh_step:
  assumes ws: "well_signed L (secret j) s (SigningMethodHMAC a) c"
    and c: "IssuedAt c = Some t0" "NotBefore c = Some t0" "ExpiresAt c = Some (t0 + 24 * Hour)"
    and t: "t0 \<le> t" "t < t0 + 24 * Hour"
  shows "RefreshToken L j t s =
     Inr (SigningString L SigningMethodHS256 (RefreshToken_newClaims t c) @ ''.'' @
          Sign L SigningMethodHS256
            (SigningString L SigningMethodHS256 (RefreshToken_newClaims t c)) (secret j))"
proof -
  have "Validate t c = []"
    using c t by (simp add: Validate_Nil_iff)
  then have v: "ValidateToken L j t s = Inr c"
    by (simp add: ValidateToken_well_signed [OF ws])
  have "t - t0 \<le> 7 * 24 * Hour"
    using t Hour_pos by simp
  from RefreshToken_success [OF v c(1) this] show ?thesis .
qed




section \<open>The guards: auxiliary facts\<close>

lemma Split_not_Nil: "Split s sep \<noteq> []"
  by (induction s) (auto split: list.splits)

lemma Split_no_sep: "sep \<notin> set s \<Longrightarrow> Split s sep = [s]"
  by (induction s) auto

lemma Split_sep: "sep \<notin> set a \<Longrightarrow> Split (a @ sep # b) sep = a # Split b sep"
  by (induction a) auto

lemma Split_two_iff:
  "Split s sep = [a, b] \<longleftrightarrow> s = a @ sep # b \<and> sep \<notin> set a \<and> sep \<notin> set b"
proof (induction s arbitrary: a)
  case Nil
  then show ?case by simp
next
  case (Cons c cs)
  show ?case
  proof (cases "c = sep")
    case True
    have "Split cs sep = [b] \<longleftrightarrow> cs = b \<and> sep \<notin> set b"
    proof
      assume h: "Split cs sep = [b]"
      show "cs = b \<and> sep \<notin> set b"
      proof (cases "sep \<in> set cs")
        case True
        then obtain u v where "cs = u @ sep # v" "sep \<notin> set u"
          by (meson split_list_first)
        then have "Split cs sep = u # Split v sep" by (simp add: Split_sep)
        with h Split_not_Nil [of v sep] show ?thesis by simp
      next
        case False
        with h show ?thesis by (simp add: Split_no_sep)
      qed
    qed (simp add: Split_no_sep)
    with True show ?thesis by (cases a) auto
  next
    case False
    with Cons [of "tl a"] show ?thesis
      by (cases a) (auto split: list.splits)
  qed
qed

lemma bearer_parts: "bearer h tok \<Longrightarrow> Split h CHR '' '' = [''Bearer'', tok]"
  by (simp add: bearer_def Split_no_sep)

lemma bearer_iff_parts:
  "(length (Split h CHR '' '') = 2 \<and> Split h CHR '' '' ! 0 = ''Bearer'') \<longleftrightarrow> (\<exists>tok. bearer h tok)"
proof
  assume l: "length (Split h CHR '' '') = 2 \<and> Split h CHR '' '' ! 0 = ''Bearer''"
  then obtain a b where ab: "Split h CHR '' '' = [a, b]"
    by (cases "Split h CHR '' ''" rule: list.exhaust; simp; metis length_0_conv length_Suc_conv)
  with l have "a = ''Bearer''" by simp
  with ab have "h = ''Bearer'' @ CHR '' '' # b \<and> CHR '' '' \<notin> set b"
    by (simp only: Split_two_iff) simp
  then show "\<exists>tok. bearer h tok"
    by (auto simp: bearer_def)
next
  assume "\<exists>tok. bearer h tok"
  then obtain tok where "bearer h tok" ..
  from bearer_parts [OF this]
  show "length (Split h CHR '' '') = 2 \<and> Split h CHR '' '' ! 0 = ''Bearer''" by simp
qed

lemma RequireAuth_missing:
  "Header_Get (Header r) ''Authorization'' = [] \<Longrightarrow>
     RequireAuth L m now next w r = http_Error w ''Authorization header required'' StatusUnauthorized"
  by (simp add: RequireAuth_def)

lemma RequireAuth_format:
  "Header_Get (Header r) ''Authorization'' \<noteq> [] \<Longrightarrow>
   \<forall>tok. \<not> bearer (Header_Get (Header r) ''Authorization'') tok \<Longrightarrow>
     RequireAuth L m now next w r = http_Error w ''Invalid authorization header format'' StatusUnauthorized"
  using bearer_iff_parts [of "Header_Get (Header r) ''Authorization''"]
  by (auto simp: RequireAuth_def Let_def)

lemma bearer_nonempty: "bearer h tok \<Longrightarrow> h \<noteq> []"
  by (auto simp: bearer_def)

lemma RequireAuth_bearer:
  assumes "bearer (Header_Get (Header r) ''Authorization'') tok"
  shows "RequireAuth L m now next w r =
     (case ValidateToken L (jwtService m) now tok of
        Inl e \<Rightarrow> http_Error w ''Invalid or expired token'' StatusUnauthorized
      | Inr c \<Rightarrow> next w (authenticated r c))"
  using bearer_parts [OF assms] bearer_nonempty [OF assms]
  by (simp add: RequireAuth_def Let_def authenticated_def WithValue_def WithContext_def
        split: sum.splits)

lemma RequireRole_hasRole_iff: "RequireRole_hasRole role roles \<longleftrightarrow> role \<in> set roles"
  by (induction roles) auto

lemma RequireAnyRole_inner_iff: "RequireAnyRole_inner userRole allowed \<longleftrightarrow> userRole \<in> set allowed"
  by (induction allowed) auto

lemma RequireAnyRole_hasRole_iff:
  "RequireAnyRole_hasRole allowed roles \<longleftrightarrow> set roles \<inter> set allowed \<noteq> {}"
  by (induction roles) (auto simp: RequireAnyRole_inner_iff)

lemma Value_authenticated_roles:
  "Value (Context (authenticated r c)) UserRolesKey = Some (AnyStringSlice (Roles c))"
  by (simp add: authenticated_def Value_def)

lemma RequireRole_handler_roles:
  "Value (Context r) UserRolesKey = Some (AnyStringSlice R) \<Longrightarrow>
     RequireRole_handler role next w r =
       (if role \<in> set R then next w r
        else http_Error w ''Insufficient permissions'' StatusForbidden)"
  by (simp add: RequireRole_handler_def RequireRole_hasRole_iff)

lemma RequireAnyRole_handler_roles:
  "Value (Context r) UserRolesKey = Some (AnyStringSlice R) \<Longrightarrow>
     RequireAnyRole_handler S next w r =
       (if set R \<inter> set S \<noteq> {} then next w r
        else http_Error w ''Insufficient permissions'' StatusForbidden)"
  by (simp add: RequireAnyRole_handler_def RequireAnyRole_hasRole_iff)

lemma bearer_unique: "bearer h tok \<Longrightarrow> bearer h tok' \<Longrightarrow> tok' = tok"
  by (simp add: bearer_def)

lemma RequireAuth_cases [case_names missing format invalid valid]:
  obtains
    "\<And>next. RequireAuth L m now next w r =
        http_Error w ''Authorization header required'' StatusUnauthorized"
    "\<And>tok. \<not> bearer (Header_Get (Header r) ''Authorization'') tok"
  | "\<And>next. RequireAuth L m now next w r =
        http_Error w ''Invalid authorization header format'' StatusUnauthorized"
    "\<And>tok. \<not> bearer (Header_Get (Header r) ''Authorization'') tok"
  | tok e where "bearer (Header_Get (Header r) ''Authorization'') tok"
      "ValidateToken L (jwtService m) now tok = Inl e"
      "\<And>next. RequireAuth L m now next w r =
         http_Error w ''Invalid or expired token'' StatusUnauthorized"
  | tok c where "bearer (Header_Get (Header r) ''Authorization'') tok"
      "ValidateToken L (jwtService m) now tok = Inr c"
      "\<And>next. RequireAuth L m now next w r = next w (authenticated r c)"
proof (cases "Header_Get (Header r) ''Authorization'' = []")
  case True
  then have "\<And>tok. \<not> bearer (Header_Get (Header r) ''Authorization'') tok"
    by (simp add: bearer_def)
  with True that(1) show ?thesis
    by (simp add: RequireAuth_missing)
next
  case ne: False
  show ?thesis
  proof (cases "\<exists>tok. bearer (Header_Get (Header r) ''Authorization'') tok")
    case False
    with ne that(2) show ?thesis
      by (simp add: RequireAuth_format)
  next
    case True
    then obtain tok where b: "bearer (Header_Get (Header r) ''Authorization'') tok" ..
    show ?thesis
    proof (cases "ValidateToken L (jwtService m) now tok")
      case (Inl e)
      with b that(3) show ?thesis
        by (simp add: RequireAuth_bearer [OF b])
    next
      case (Inr c)
      with b that(4) show ?thesis
        by (simp add: RequireAuth_bearer [OF b])
    qed
  qed
qed

lemma Statuses_differ:
  "StatusUnauthorized \<noteq> StatusForbidden"
  "StatusInternalServerError \<noteq> StatusUnauthorized"
  "StatusInternalServerError \<noteq> StatusForbidden"
  by (simp_all add: StatusInternalServerError_def StatusUnauthorized_def StatusForbidden_def)

lemma RequireAuth_delivers_roles:
  "\<exists>d. (\<forall>h. RequireAuth L m now h w r = enact d h w)
        \<and> (case d of Deny msg code \<Rightarrow> code = StatusUnauthorized
            | Allow r' \<Rightarrow> \<exists>roles. Value (Context r') UserRolesKey = Some (AnyStringSlice roles)
                              \<and> GetUserRolesFromContext (Context r') = (roles, True))"
proof (cases rule: RequireAuth_cases [of L m now w r])
  case missing
  then show ?thesis
    by (intro exI [of _ "Deny ''Authorization header required'' StatusUnauthorized"]) simp
next
  case format
  then show ?thesis
    by (intro exI [of _ "Deny ''Invalid authorization header format'' StatusUnauthorized"]) simp
next
  case (invalid tok e)
  then show ?thesis
    by (intro exI [of _ "Deny ''Invalid or expired token'' StatusUnauthorized"]) simp
next
  case (valid tok c)
  then show ?thesis
    by (intro exI [of _ "Allow (authenticated r c)"])
       (simp add: Value_authenticated_roles GetUserRolesFromContext_def)
qed

lemma RequireRole_decision:
  "\<exists>d. (\<forall>next. RequireRole L m now role next w r = enact d next w)
        \<and> denied_with d \<in> {None, Some StatusUnauthorized, Some StatusForbidden}"
proof (cases rule: RequireAuth_cases [of L m now w r])
  case missing
  then show ?thesis
    by (intro exI [of _ "Deny ''Authorization header required'' StatusUnauthorized"])
       (simp add: RequireRole_def)
next
  case format
  then show ?thesis
    by (intro exI [of _ "Deny ''Invalid authorization header format'' StatusUnauthorized"])
       (simp add: RequireRole_def)
next
  case (invalid tok e)
  then show ?thesis
    by (intro exI [of _ "Deny ''Invalid or expired token'' StatusUnauthorized"])
       (simp add: RequireRole_def)
next
  case (valid tok c)
  show ?thesis
  proof (cases "role \<in> set (Roles c)")
    case True
    with valid show ?thesis
      by (intro exI [of _ "Allow (authenticated r c)"])
         (simp add: RequireRole_def RequireRole_handler_roles [OF Value_authenticated_roles])
  next
    case False
    with valid show ?thesis
      by (intro exI [of _ "Deny ''Insufficient permissions'' StatusForbidden"])
         (simp add: RequireRole_def RequireRole_handler_roles [OF Value_authenticated_roles])
  qed
qed

lemma RequireAnyRole_decision:
  "\<exists>d. (\<forall>next. RequireAnyRole L m now allowedRoles next w r = enact d next w)
        \<and> denied_with d \<in> {None, Some StatusUnauthorized, Some StatusForbidden}"
proof (cases rule: RequireAuth_cases [of L m now w r])
  case missing
  then show ?thesis
    by (intro exI [of _ "Deny ''Authorization header required'' StatusUnauthorized"])
       (simp add: RequireAnyRole_def)
next
  case format
  then show ?thesis
    by (intro exI [of _ "Deny ''Invalid authorization header format'' StatusUnauthorized"])
       (simp add: RequireAnyRole_def)
next
  case (invalid tok e)
  then show ?thesis
    by (intro exI [of _ "Deny ''Invalid or expired token'' StatusUnauthorized"])
       (simp add: RequireAnyRole_def)
next
  case (valid tok c)
  show ?thesis
  proof (cases "set (Roles c) \<inter> set allowedRoles \<noteq> {}")
    case True
    with valid show ?thesis
      by (intro exI [of _ "Allow (authenticated r c)"])
         (simp add: RequireAnyRole_def RequireAnyRole_handler_roles [OF Value_authenticated_roles])
  next
    case False
    with valid show ?thesis
      by (intro exI [of _ "Deny ''Insufficient permissions'' StatusForbidden"])
         (simp add: RequireAnyRole_def RequireAnyRole_handler_roles [OF Value_authenticated_roles])
  qed
qed

section \<open>The executable instance: facts by evaluation\<close>

lemma demo_issue: "GenerateToken demo_library svc 1000 alice = Inr alice_token"
  by code_simp

lemma demo_well_signed:
  "well_signed demo_library (secret svc) alice_token (SigningMethodHMAC ''HS256'')
     (GenerateToken_claims 1000 alice)"
  by code_simp

lemma demo_reads_back_issued:
  "reads_back demo_library (secret svc) (GenerateToken_claims 1000 alice)"
proof -
  have "SignedString demo_library (NewWithClaims SigningMethodHS256 (GenerateToken_claims 1000 alice))
          (secret svc) = Inr alice_token"
    using demo_issue by (simp add: GenerateToken_def Let_def split: sum.splits)
  with demo_well_signed show ?thesis
    by (simp add: reads_back_def SigningMethodHS256_def)
qed

lemma demo_validate:
  "ValidateToken demo_library svc 2000 alice_token = Inr (GenerateToken_claims 1000 alice)"
proof -
  have "Validate 2000 (GenerateToken_claims 1000 alice) = []"
    by (simp add: Validate_Nil_iff GenerateToken_claims_def NewNumericDate_def Hour_def)
  with ValidateToken_well_signed [OF demo_well_signed, of 2000] show ?thesis by simp
qed

lemma demo_reads_back_refreshed:
  "reads_back demo_library (secret svc)
     (RefreshToken_newClaims 2000 (GenerateToken_claims 1000 alice))"
  by code_simp

lemma demo_stale_well_signed:
  "well_signed demo_library (secret svc) stale_token (SigningMethodHMAC ''HS256'') stale_claims"
  by code_simp

lemma demo_garbage:
  "ValidateToken demo_library svc 2000 ''garbage'' = Inl (FailedToParse ErrTokenMalformed)"
  by code_simp

lemma demo_stale_validate:
  "ValidateToken demo_library svc 700000 stale_token = Inr stale_claims"
proof -
  have "Validate 700000 stale_claims = []"
    by (simp add: Validate_Nil_iff stale_claims_def)
  with ValidateToken_well_signed [OF demo_stale_well_signed, of 700000] show ?thesis by simp
qed

lemma demo_header:
  "Header_Get (Header (request_with h)) ''Authorization'' = h"
  by (simp add: request_with_def Header_Get_def)

lemma demo_bearer:
  "bearer (Header_Get (Header (request_with (''Bearer '' @ alice_token))) ''Authorization'')
     alice_token"
  by (simp add: demo_header bearer_def alice_token_def)

lemma demo_guard: "jwtService guard = svc"
  by (simp add: guard_def NewMiddleware_def)

section \<open>The claims about the token service\<close>



text \<open>
  Claim C4. For a token that parses, names a method of the HMAC family, is signed
  with the secret and carries the timestamps \<open>nbf\<close> and \<open>exp\<close>, validation at
  the instant \<open>t\<close> succeeds exactly when \<open>nbf \<le> t < exp\<close>, and then returns
  the claims of the token; from \<open>t = exp\<close> on it fails with the kind expired,
  and before \<open>nbf\<close> it fails with the kind not yet valid.
\<close>

theorem validity_window:
  assumes ws: "well_signed L (secret j) s (SigningMethodHMAC a) c"
    and nbf: "NotBefore c = Some nbf" and exp: "ExpiresAt c = Some exp"
  shows "((\<exists>c'. ValidateToken L j t s = Inr c') \<longleftrightarrow> nbf \<le> t \<and> t < exp)
       \<and> (nbf \<le> t \<and> t < exp \<longrightarrow> ValidateToken L j t s = Inr c)
       \<and> (exp \<le> t \<longrightarrow> (\<exists>errs. ValidateToken L j t s = Inl (FailedToParse (ErrTokenInvalidClaims errs))
                               \<and> ErrTokenExpired \<in> set errs))
       \<and> (t < nbf \<longrightarrow> (\<exists>errs. ValidateToken L j t s = Inl (FailedToParse (ErrTokenInvalidClaims errs))
                               \<and> ErrTokenNotValidYet \<in> set errs))"
proof -
  have v: "Validate t c = (if t < exp then [] else [ErrTokenExpired]) @ (if nbf \<le> t then [] else [ErrTokenNotValidYet])"
    by (simp add: Validate_def verifyExpiresAt_def verifyNotBefore_def nbf exp not_less)
  show ?thesis
    unfolding ValidateToken_well_signed [OF ws] v by auto
qed

theorem validity_window_witness:
  "well_signed demo_library (secret svc) alice_token (SigningMethodHMAC ''HS256'')
     (GenerateToken_claims 1000 alice)
   \<and> ValidateToken demo_library svc 1000 alice_token = Inr (GenerateToken_claims 1000 alice)
   \<and> ValidateToken demo_library svc 87399 alice_token = Inr (GenerateToken_claims 1000 alice)
   \<and> (\<exists>errs. ValidateToken demo_library svc 87400 alice_token =
                Inl (FailedToParse (ErrTokenInvalidClaims errs)) \<and> ErrTokenExpired \<in> set errs)
   \<and> (\<exists>errs. ValidateToken demo_library svc 999 alice_token =
                Inl (FailedToParse (ErrTokenInvalidClaims errs)) \<and> ErrTokenNotValidYet \<in> set errs)"
proof -
  have nbf: "NotBefore (GenerateToken_claims 1000 alice) = Some 1000"
    and exp: "ExpiresAt (GenerateToken_claims 1000 alice) = Some 87400"
    by (simp_all add: GenerateToken_claims_def NewNumericDate_def Hour_def)
  note w = validity_window [OF demo_well_signed nbf exp]
  from w [of 1000] w [of 87399] w [of 87400] w [of 999] demo_well_signed
  show ?thesis by simp
qed

text \<open>
  Claim C5. A failure of the validation of the old token is handed on as a
  failure of the refresh. For a token that validates at \<open>now\<close> with the
  timestamp \<open>iat\<close>, the refresh fails with the kind \<open>TokenTooOld\<close> exactly
  when \<open>now - iat\<close> exceeds 7 days; when \<open>now - iat\<close> is at most 7 days it
  returns a new token, and that token (read back by the library) validates
  with an expiry 24 hours after \<open>now\<close>.
\<close>

theorem refresh_window:
  "(\<forall>e. ValidateToken L j now s = Inl e \<longrightarrow> RefreshToken L j now s = Inl (CannotRefresh e))
 \<and> (\<forall>c iat. ValidateToken L j now s = Inr c \<and> IssuedAt c = Some iat \<longrightarrow>
       (RefreshToken L j now s = Inl TokenTooOld \<longleftrightarrow> now - iat > 7 * 24 * Hour)
     \<and> (now - iat \<le> 7 * 24 * Hour \<longrightarrow>
          (\<exists>s'. RefreshToken L j now s = Inr s'
             \<and> (reads_back L (secret j) (RefreshToken_newClaims now c) \<longrightarrow>
                  (\<exists>c'. ValidateToken L j now s' = Inr c' \<and> ExpiresAt c' = Some (now + 24 * Hour))))))"
proof (intro conjI allI impI)
  fix e assume "ValidateToken L j now s = Inl e"
  then show "RefreshToken L j now s = Inl (CannotRefresh e)"
    by (simp add: RefreshToken_def)
next
  fix c iat assume h: "ValidateToken L j now s = Inr c \<and> IssuedAt c = Some iat"
  show "RefreshToken L j now s = Inl TokenTooOld \<longleftrightarrow> now - iat > 7 * 24 * Hour"
    using h by (simp add: RefreshToken_def Since_def SignedString_def Let_def)
next
  fix c iat
  assume h: "ValidateToken L j now s = Inr c \<and> IssuedAt c = Some iat"
    and w: "now - iat \<le> 7 * 24 * Hour"
  from h w have r: "RefreshToken L j now s =
     Inr (SigningString L SigningMethodHS256 (RefreshToken_newClaims now c) @ ''.'' @
          Sign L SigningMethodHS256
            (SigningString L SigningMethodHS256 (RefreshToken_newClaims now c)) (secret j))"
    by (intro RefreshToken_success) auto
  show "\<exists>s'. RefreshToken L j now s = Inr s'
             \<and> (reads_back L (secret j) (RefreshToken_newClaims now c) \<longrightarrow>
                  (\<exists>c'. ValidateToken L j now s' = Inr c' \<and> ExpiresAt c' = Some (now + 24 * Hour)))"
  proof (intro exI conjI impI)
    show "RefreshToken L j now s = Inr (SigningString L SigningMethodHS256 (RefreshToken_newClaims now c) @ ''.'' @
          Sign L SigningMethodHS256
            (SigningString L SigningMethodHS256 (RefreshToken_newClaims now c)) (secret j))"
      by (rule r)
  next
    assume rb: "reads_back L (secret j) (RefreshToken_newClaims now c)"
    show "ValidateToken L j now (SigningString L SigningMethodHS256 (RefreshToken_newClaims now c) @ ''.'' @
          Sign L SigningMethodHS256
            (SigningString L SigningMethodHS256 (RefreshToken_newClaims now c)) (secret j))
       = Inr (RefreshToken_newClaims now c)"
      by (rule ValidateToken_refreshed [OF rb])
  next
    show "ExpiresAt (RefreshToken_newClaims now c) = Some (now + 24 * Hour)"
      by (simp add: RefreshToken_newClaims_def NewNumericDate_def)
  qed
qed

theorem refresh_window_witness:
  "RefreshToken demo_library svc 2000 ''garbage'' =
     Inl (CannotRefresh (FailedToParse ErrTokenMalformed))
   \<and> ValidateToken demo_library svc 700000 stale_token = Inr stale_claims
   \<and> IssuedAt stale_claims = Some 0
   \<and> RefreshToken demo_library svc 700000 stale_token = Inl TokenTooOld
   \<and> ValidateToken demo_library svc 2000 alice_token = Inr (GenerateToken_claims 1000 alice)
   \<and> IssuedAt (GenerateToken_claims 1000 alice) = Some 1000
   \<and> RefreshToken demo_library svc 2000 alice_token \<noteq> Inl TokenTooOld
   \<and> (\<exists>s'. RefreshToken demo_library svc 2000 alice_token = Inr s'
         \<and> (\<exists>c'. ValidateToken demo_library svc 2000 s' = Inr c'
               \<and> ExpiresAt c' = Some (2000 + 24 * Hour)))"
proof -
  have i0: "IssuedAt stale_claims = Some 0"
    by (simp add: stale_claims_def)
  have i1: "IssuedAt (GenerateToken_claims 1000 alice) = Some 1000"
    by (simp add: GenerateToken_claims_def NewNumericDate_def)
  have old: "(700000::int) - 0 > 7 * 24 * Hour" and young: "(2000::int) - 1000 \<le> 7 * 24 * Hour"
    by (simp_all add: Hour_def)
  from refresh_window [of demo_library svc 2000 "''garbage''"] demo_garbage
  have 1: "RefreshToken demo_library svc 2000 ''garbage'' =
     Inl (CannotRefresh (FailedToParse ErrTokenMalformed))"
    by blast
  from refresh_window [of demo_library svc 700000 stale_token] demo_stale_validate i0 old
  have 2: "RefreshToken demo_library svc 700000 stale_token = Inl TokenTooOld"
    by blast
  from refresh_window [of demo_library svc 2000 alice_token] demo_validate i1 young
  have 3: "RefreshToken demo_library svc 2000 alice_token \<noteq> Inl TokenTooOld"
    by (metis not_less)
  from refresh_window [of demo_library svc 2000 alice_token] demo_validate i1 young
    demo_reads_back_refreshed
  have 4: "\<exists>s'. RefreshToken demo_library svc 2000 alice_token = Inr s'
         \<and> (\<exists>c'. ValidateToken demo_library svc 2000 s' = Inr c'
               \<and> ExpiresAt c' = Some (2000 + 24 * Hour))"
    by blast
  from 1 2 3 4 demo_stale_validate demo_validate i0 i1 show ?thesis
    by (intro conjI)
qed

text \<open>
  Claim C6. A successful refresh at \<open>now\<close> of a token with claims \<open>c\<close> returns a
  token whose decoded claims have the user id, the email, the roles and the
  subject of \<open>c\<close>, \<open>iat\<close> and \<open>nbf\<close> equal to \<open>now\<close> and \<open>exp\<close> equal to
  \<open>now + 24h\<close>; the old token still validates to the same claims \<open>c\<close>.
\<close>

theorem refresh_carries_identity:
  assumes v: "ValidateToken L j now s = Inr c" and iat: "IssuedAt c = Some iat"
    and w: "now - iat \<le> 7 * 24 * Hour"
    and rb: "reads_back L (secret j) (RefreshToken_newClaims now c)"
  shows "\<exists>s' c'. RefreshToken L j now s = Inr s' \<and> ValidateToken L j now s' = Inr c'
           \<and> UserID c' = UserID c \<and> Email c' = Email c \<and> Roles c' = Roles c
           \<and> Subject c' = Subject c
           \<and> IssuedAt c' = Some now \<and> NotBefore c' = Some now
           \<and> ExpiresAt c' = Some (now + 24 * Hour)
           \<and> ValidateToken L j now s = Inr c"
proof (intro exI conjI)
  show "RefreshToken L j now s = Inr (SigningString L SigningMethodHS256 (RefreshToken_newClaims now c) @ ''.'' @
          Sign L SigningMethodHS256
            (SigningString L SigningMethodHS256 (RefreshToken_newClaims now c)) (secret j))"
    by (rule RefreshToken_success [OF v iat w])
  show "ValidateToken L j now (SigningString L SigningMethodHS256 (RefreshToken_newClaims now c) @ ''.'' @
          Sign L SigningMethodHS256
            (SigningString L SigningMethodHS256 (RefreshToken_newClaims now c)) (secret j))
       = Inr (RefreshToken_newClaims now c)"
    by (rule ValidateToken_refreshed [OF rb])
  show "ValidateToken L j now s = Inr c"
    by (rule v)
qed (simp_all add: RefreshToken_newClaims_def NewNumericDate_def)

theorem refresh_carries_identity_witness:
  "ValidateToken demo_library svc 2000 alice_token = Inr (GenerateToken_claims 1000 alice)
   \<and> reads_back demo_library (secret svc)
        (RefreshToken_newClaims 2000 (GenerateToken_claims 1000 alice))
   \<and> (\<exists>s' c'. RefreshToken demo_library svc 2000 alice_token = Inr s'
         \<and> ValidateToken demo_library svc 2000 s' = Inr c'
         \<and> UserID c' = 7 \<and> Email c' = ''al@x.io'' \<and> Roles c' = [''user'', ''editor'']
         \<and> Subject c' = ''user_7''
         \<and> IssuedAt c' = Some 2000 \<and> NotBefore c' = Some 2000 \<and> ExpiresAt c' = Some 88400)"
proof -
  have i1: "IssuedAt (GenerateToken_claims 1000 alice) = Some 1000"
    by (simp add: GenerateToken_claims_def NewNumericDate_def)
  have young: "(2000::int) - 1000 \<le> 7 * 24 * Hour"
    by (simp add: Hour_def)
  have sub: "Subject (GenerateToken_claims 1000 alice) = ''user_7''"
    by code_simp
  from refresh_carries_identity [OF demo_validate i1 young demo_reads_back_refreshed]
  obtain s' c' where "RefreshToken demo_library svc 2000 alice_token = Inr s'"
    "ValidateToken demo_library svc 2000 s' = Inr c'"
    "UserID c' = UserID (GenerateToken_claims 1000 alice)"
    "Email c' = Email (GenerateToken_claims 1000 alice)"
    "Roles c' = Roles (GenerateToken_claims 1000 alice)"
    "Subject c' = Subject (GenerateToken_claims 1000 alice)"
    "IssuedAt c' = Some 2000" "NotBefore c' = Some 2000" "ExpiresAt c' = Some (2000 + 24 * Hour)"
    by blast
  then have "RefreshToken demo_library svc 2000 alice_token = Inr s'
         \<and> ValidateToken demo_library svc 2000 s' = Inr c'
         \<and> UserID c' = 7 \<and> Email c' = ''al@x.io'' \<and> Roles c' = [''user'', ''editor'']
         \<and> Subject c' = ''user_7''
         \<and> IssuedAt c' = Some 2000 \<and> NotBefore c' = Some 2000 \<and> ExpiresAt c' = Some 88400"
    using sub by (simp add: GenerateToken_claims_def alice_def Hour_def)
  with demo_validate demo_reads_back_refreshed show ?thesis by blast
qed

text \<open>
  Claim C7 says that issued and refreshed tokens carry the same issuer. The
  source does otherwise: the token issued for a principal decodes to the
  issuer \<open>goapp\<close>, the token obtained by refreshing it decodes to the issuer
  \<open>auth-app\<close>, and the two differ.
\<close>

theorem issuer_not_fixed:
  assumes rb: "reads_back L (secret j) (GenerateToken_claims t0 P)"
    and t: "t0 \<le> now" "now < t0 + 24 * Hour"
    and rb': "reads_back L (secret j) (RefreshToken_newClaims now (GenerateToken_claims t0 P))"
  shows "\<exists>tok c tok' c'. GenerateToken L j t0 P = Inr tok \<and> ValidateToken L j now tok = Inr c
           \<and> RefreshToken L j now tok = Inr tok' \<and> ValidateToken L j now tok' = Inr c'
           \<and> Issuer c = ''goapp'' \<and> Issuer c' = ''auth-app'' \<and> Issuer c \<noteq> Issuer c'"
proof -
  let ?c = "GenerateToken_claims t0 P"
  let ?tok = "SigningString L SigningMethodHS256 ?c @ ''.'' @
          Sign L SigningMethodHS256 (SigningString L SigningMethodHS256 ?c) (secret j)"
  let ?c' = "RefreshToken_newClaims now ?c"
  let ?tok' = "SigningString L SigningMethodHS256 ?c' @ ''.'' @
          Sign L SigningMethodHS256 (SigningString L SigningMethodHS256 ?c') (secret j)"
  have ws: "well_signed L (secret j) ?tok (SigningMethodHMAC ''HS256'') ?c"
    using reads_back_well_signed [OF rb] by (simp add: SigningMethodHS256_def)
  have times: "IssuedAt ?c = Some t0" "NotBefore ?c = Some t0" "ExpiresAt ?c = Some (t0 + 24 * Hour)"
    by (simp_all add: GenerateToken_claims_def NewNumericDate_def)
  have "Validate now ?c = []"
    using t times by (simp add: Validate_Nil_iff)
  with ValidateToken_well_signed [OF ws, of now] have v: "ValidateToken L j now ?tok = Inr ?c"
    by simp
  have r: "RefreshToken L j now ?tok = Inr ?tok'"
    by (rule refresh_step [OF ws times t])
  have v': "ValidateToken L j now ?tok' = Inr ?c'"
    by (rule ValidateToken_refreshed [OF rb'])
  have i: "Issuer ?c = ''goapp''" "Issuer ?c' = ''auth-app''"
    by (simp_all add: GenerateToken_claims_def RefreshToken_newClaims_def)
  have g: "GenerateToken L j t0 P = Inr ?tok"
    by (rule GenerateToken_SignedString)
  from g v r v' i show ?thesis
    by (intro exI [of _ ?tok] exI [of _ ?c] exI [of _ ?tok'] exI [of _ ?c']) simp
qed

theorem issuer_not_fixed_witness:
  "reads_back demo_library (secret svc) (GenerateToken_claims 1000 alice)
   \<and> reads_back demo_library (secret svc)
        (RefreshToken_newClaims 2000 (GenerateToken_claims 1000 alice))
   \<and> (\<exists>tok c tok' c'. GenerateToken demo_library svc 1000 alice = Inr tok
         \<and> ValidateToken demo_library svc 2000 tok = Inr c
         \<and> RefreshToken demo_library svc 2000 tok = Inr tok'
         \<and> ValidateToken demo_library svc 2000 tok' = Inr c'
         \<and> Issuer c = ''goapp'' \<and> Issuer c' = ''auth-app'' \<and> Issuer c \<noteq> Issuer c')"
proof -
  have t: "(1000::int) \<le> 2000" "(2000::int) < 1000 + 24 * Hour"
    by (simp_all add: Hour_def)
  from issuer_not_fixed [OF demo_reads_back_issued t demo_reads_back_refreshed]
    demo_reads_back_issued demo_reads_back_refreshed
  show ?thesis by (intro conjI)
qed




section \<open>The claims about the guards\<close>

text \<open>
  Claim C2. Whatever the wrapped operation \<open>next\<close> is, \<open>RequireAuth\<close> answers with
  \<open>http.Error\<close> and the status 401, without calling \<open>next\<close>, when the
  \<open>Authorization\<close> header is missing, when its value is not the word
  \<open>Bearer\<close>, one space and a credential without space (the source splits at
  the single space), and when \<open>ValidateToken\<close> fails on the credential, with
  any error. When \<open>ValidateToken\<close> returns claims, and only then, the guard
  calls \<open>next\<close> on the request \<open>authenticated r c\<close>, whose context holds
  the user id, the email and the roles of the claims, as the three accessors
  of the package read them. The four cases cover every request.
\<close>

theorem authentication_guard:
  "(Header_Get (Header r) ''Authorization'' = [] \<longrightarrow>
      (\<forall>next. RequireAuth L m now next w r =
         http_Error w ''Authorization header required'' StatusUnauthorized))
 \<and> (Header_Get (Header r) ''Authorization'' \<noteq> []
      \<and> (\<forall>tok. \<not> bearer (Header_Get (Header r) ''Authorization'') tok) \<longrightarrow>
      (\<forall>next. RequireAuth L m now next w r =
         http_Error w ''Invalid authorization header format'' StatusUnauthorized))
 \<and> (\<forall>tok e. bearer (Header_Get (Header r) ''Authorization'') tok
      \<and> ValidateToken L (jwtService m) now tok = Inl e \<longrightarrow>
      (\<forall>next. RequireAuth L m now next w r =
         http_Error w ''Invalid or expired token'' StatusUnauthorized))
 \<and> (\<forall>tok c. bearer (Header_Get (Header r) ''Authorization'') tok
      \<and> ValidateToken L (jwtService m) now tok = Inr c \<longrightarrow>
      (\<forall>next. RequireAuth L m now next w r =
         next w (authenticated r c)))
 \<and> (\<forall>c. GetUserIDFromContext (Context (authenticated r c)) = (UserID c, True)
        \<and> GetUserEmailFromContext (Context (authenticated r c)) = (Email c, True)
        \<and> GetUserRolesFromContext (Context (authenticated r c)) = (Roles c, True))
 \<and> StatusUnauthorized = 401
 \<and> (\<forall>msg code. StatusCode w = None \<longrightarrow> StatusCode (http_Error w msg code) = Some code)"
proof (intro conjI allI impI)
  show "StatusUnauthorized = 401" by (simp add: StatusUnauthorized_def)
next
  fix c
  show "GetUserIDFromContext (Context (authenticated r c)) = (UserID c, True)"
    by (simp add: GetUserIDFromContext_def authenticated_def Value_def
          UserIDKey_def UserEmailKey_def UserRolesKey_def)
  show "GetUserEmailFromContext (Context (authenticated r c)) = (Email c, True)"
    by (simp add: GetUserEmailFromContext_def authenticated_def Value_def
          UserIDKey_def UserEmailKey_def UserRolesKey_def)
  show "GetUserRolesFromContext (Context (authenticated r c)) = (Roles c, True)"
    by (simp add: GetUserRolesFromContext_def authenticated_def Value_def
          UserIDKey_def UserEmailKey_def UserRolesKey_def)
next
  fix msg code assume "StatusCode w = None"
  then show "StatusCode (http_Error w msg code) = Some code"
    by (simp add: http_Error_def WriteHeader_def Let_def)
qed (auto simp: RequireAuth_missing RequireAuth_format RequireAuth_bearer)

theorem authentication_guard_witness:
  "(\<forall>next. RequireAuth demo_library guard 2000 next fresh request_without =
       http_Error fresh ''Authorization header required'' StatusUnauthorized)
   \<and> (\<forall>next. RequireAuth demo_library guard 2000 next fresh (request_with ''Basic abc'') =
       http_Error fresh ''Invalid authorization header format'' StatusUnauthorized)
   \<and> (\<forall>next. RequireAuth demo_library guard 2000 next fresh (request_with ''Bearer garbage'') =
       http_Error fresh ''Invalid or expired token'' StatusUnauthorized)
   \<and> (\<forall>next. RequireAuth demo_library guard 2000 next fresh
              (request_with (''Bearer '' @ alice_token)) =
       next fresh (authenticated (request_with (''Bearer '' @ alice_token))
                     (GenerateToken_claims 1000 alice)))
   \<and> StatusCode (http_Error fresh ''Authorization header required'' StatusUnauthorized) = Some 401"
proof -
  have h0: "Header_Get (Header request_without) ''Authorization'' = []"
    by (simp add: request_without_def Header_Get_def)
  have h1: "Header_Get (Header (request_with ''Basic abc'')) ''Authorization'' \<noteq> []"
    "\<forall>tok. \<not> bearer (Header_Get (Header (request_with ''Basic abc'')) ''Authorization'') tok"
    by (simp_all add: demo_header bearer_def)
  have h2: "bearer (Header_Get (Header (request_with ''Bearer garbage'')) ''Authorization'')
              ''garbage''"
    by (simp add: demo_header bearer_def)
  have fr: "StatusCode fresh = None"
    by (simp add: fresh_def)
  note g = authentication_guard [where L = demo_library and m = guard and now = 2000
      and w = fresh]
  from g [where r = request_without] h0
  have 1: "\<forall>next. RequireAuth demo_library guard 2000 next fresh request_without =
       http_Error fresh ''Authorization header required'' StatusUnauthorized"
    by blast
  from g [where r = "request_with ''Basic abc''"] h1
  have 2: "\<forall>next. RequireAuth demo_library guard 2000 next fresh (request_with ''Basic abc'') =
       http_Error fresh ''Invalid authorization header format'' StatusUnauthorized"
    by blast
  from g [where r = "request_with ''Bearer garbage''"] h2 demo_garbage
  have 3: "\<forall>next. RequireAuth demo_library guard 2000 next fresh
              (request_with ''Bearer garbage'') =
       http_Error fresh ''Invalid or expired token'' StatusUnauthorized"
    unfolding demo_guard by blast
  from g [where r = "request_with (''Bearer '' @ alice_token)"] demo_bearer demo_validate
  have 4: "\<forall>next. RequireAuth demo_library guard 2000 next fresh
              (request_with (''Bearer '' @ alice_token)) =
       next fresh (authenticated (request_with (''Bearer '' @ alice_token))
                     (GenerateToken_claims 1000 alice))"
    unfolding demo_guard by blast
  from g [where r = request_without] fr
  have 5: "StatusCode (http_Error fresh ''Authorization header required'' StatusUnauthorized)
             = Some 401"
    by simp
  from 1 2 3 4 5 show ?thesis by (intro conjI)
qed

text \<open>
  Claim C3. For a request that passes authentication with claims whose role list
  is \<open>R\<close>, the context handed on carries \<open>R\<close>; \<open>RequireRole role\<close> calls the
  wrapped operation on that request when \<open>role\<close> is an element of \<open>R\<close> and
  answers 403 without calling it otherwise; \<open>RequireAnyRole S\<close> calls it when
  \<open>R\<close> and \<open>S\<close> have a role in common and answers 403 otherwise. The role
  checks themselves do so on every request whose context carries \<open>R\<close>, and
  pass the request on as it is. The two searches give the same result on any
  list with the same set of elements as \<open>R\<close>: duplicates and order do not
  matter.
\<close>

theorem role_guards:
  assumes b: "bearer (Header_Get (Header r) ''Authorization'') tok"
    and v: "ValidateToken L (jwtService m) now tok = Inr c"
    and R: "Roles c = R"
  shows "Value (Context (authenticated r c)) UserRolesKey = Some (AnyStringSlice R)
     \<and> (\<forall>next. RequireRole L m now role next w r =
          (if role \<in> set R then next w (authenticated r c)
           else http_Error w ''Insufficient permissions'' StatusForbidden))
     \<and> (\<forall>next. RequireAnyRole L m now S next w r =
          (if set R \<inter> set S \<noteq> {} then next w (authenticated r c)
           else http_Error w ''Insufficient permissions'' StatusForbidden))
     \<and> (\<forall>next w' r'. Value (Context r') UserRolesKey = Some (AnyStringSlice R) \<longrightarrow>
          RequireRole_handler role next w' r' =
            (if role \<in> set R then next w' r'
             else http_Error w' ''Insufficient permissions'' StatusForbidden)
          \<and> RequireAnyRole_handler S next w' r' =
            (if set R \<inter> set S \<noteq> {} then next w' r'
             else http_Error w' ''Insufficient permissions'' StatusForbidden))
     \<and> StatusForbidden = 403
     \<and> (\<forall>R'. set R' = set R \<longrightarrow>
          RequireRole_hasRole role R' = RequireRole_hasRole role R
          \<and> RequireAnyRole_hasRole S R' = RequireAnyRole_hasRole S R)"
  using R
  by (auto simp: RequireRole_def RequireAnyRole_def RequireAuth_bearer [OF b] v
        Value_authenticated_roles RequireRole_handler_roles RequireAnyRole_handler_roles
        RequireRole_hasRole_iff RequireAnyRole_hasRole_iff StatusForbidden_def)

theorem role_guards_witness:
  "bearer (Header_Get (Header (request_with (''Bearer '' @ alice_token))) ''Authorization'')
     alice_token
   \<and> ValidateToken demo_library (jwtService guard) 2000 alice_token =
       Inr (GenerateToken_claims 1000 alice)
   \<and> Roles (GenerateToken_claims 1000 alice) = [''user'', ''editor'']
   \<and> (\<forall>next. RequireRole demo_library guard 2000 ''editor'' next fresh
              (request_with (''Bearer '' @ alice_token)) =
       next fresh (authenticated (request_with (''Bearer '' @ alice_token))
                     (GenerateToken_claims 1000 alice)))
   \<and> (\<forall>next. RequireRole demo_library guard 2000 ''admin'' next fresh
              (request_with (''Bearer '' @ alice_token)) =
       http_Error fresh ''Insufficient permissions'' StatusForbidden)
   \<and> (\<forall>next. RequireAnyRole demo_library guard 2000 [''admin'', ''user''] next fresh
              (request_with (''Bearer '' @ alice_token)) =
       next fresh (authenticated (request_with (''Bearer '' @ alice_token))
                     (GenerateToken_claims 1000 alice)))
   \<and> (\<forall>next. RequireAnyRole demo_library guard 2000 [''admin''] next fresh
              (request_with (''Bearer '' @ alice_token)) =
       http_Error fresh ''Insufficient permissions'' StatusForbidden)"
proof -
  have v: "ValidateToken demo_library (jwtService guard) 2000 alice_token =
       Inr (GenerateToken_claims 1000 alice)"
    using demo_validate by (simp add: demo_guard)
  have R: "Roles (GenerateToken_claims 1000 alice) = [''user'', ''editor'']"
    by (simp add: GenerateToken_claims_def alice_def)
  note g = role_guards [OF demo_bearer v R, where w = fresh]
  from g [where role = "''editor''"]
  have 1: "\<forall>next. RequireRole demo_library guard 2000 ''editor'' next fresh
              (request_with (''Bearer '' @ alice_token)) =
       next fresh (authenticated (request_with (''Bearer '' @ alice_token))
                     (GenerateToken_claims 1000 alice))"
    by simp
  from g [where role = "''admin''"]
  have 2: "\<forall>next. RequireRole demo_library guard 2000 ''admin'' next fresh
              (request_with (''Bearer '' @ alice_token)) =
       http_Error fresh ''Insufficient permissions'' StatusForbidden"
    by simp
  from g [where S = "[''admin'', ''user'']"]
  have 3: "\<forall>next. RequireAnyRole demo_library guard 2000 [''admin'', ''user''] next fresh
              (request_with (''Bearer '' @ alice_token)) =
       next fresh (authenticated (request_with (''Bearer '' @ alice_token))
                     (GenerateToken_claims 1000 alice))"
    by simp
  from g [where S = "[''admin'']"]
  have 4: "\<forall>next. RequireAnyRole demo_library guard 2000 [''admin''] next fresh
              (request_with (''Bearer '' @ alice_token)) =
       http_Error fresh ''Insufficient permissions'' StatusForbidden"
    by simp
  from demo_bearer v R 1 2 3 4 show ?thesis by (intro conjI)
qed

text \<open>
  Claim C9. Whenever \<open>RequireAuth\<close> calls the handler it wraps, the context of the
  request holds a list of strings under \<open>UserRolesKey\<close>, so that the type
  assertion of the role check succeeds. Hence \<open>RequireRole\<close> and
  \<open>RequireAnyRole\<close>, uniformly in the wrapped operation, either call the
  operation or answer with the status 401 or 403: the answer 500 of the role
  check is never given.
\<close>

theorem role_check_finds_roles:
  "(\<exists>d. (\<forall>h. RequireAuth L m now h w r = enact d h w)
        \<and> (case d of Deny msg code \<Rightarrow> code = StatusUnauthorized
            | Allow r' \<Rightarrow> \<exists>roles. Value (Context r') UserRolesKey = Some (AnyStringSlice roles)
                              \<and> GetUserRolesFromContext (Context r') = (roles, True)))
 \<and> (\<exists>d. (\<forall>next. RequireRole L m now role next w r = enact d next w)
        \<and> denied_with d \<in> {None, Some StatusUnauthorized, Some StatusForbidden})
 \<and> (\<exists>d. (\<forall>next. RequireAnyRole L m now allowedRoles next w r = enact d next w)
        \<and> denied_with d \<in> {None, Some StatusUnauthorized, Some StatusForbidden})
 \<and> StatusInternalServerError \<notin> {StatusUnauthorized, StatusForbidden}"
  by (intro conjI RequireAuth_delivers_roles RequireRole_decision RequireAnyRole_decision)
     (simp add: Statuses_differ)

theorem role_check_finds_roles_witness:
  "(\<exists>d. (\<forall>h. RequireAuth demo_library guard 2000 h fresh
                 (request_with (''Bearer '' @ alice_token)) = enact d h fresh)
        \<and> (case d of Deny msg code \<Rightarrow> code = StatusUnauthorized
            | Allow r' \<Rightarrow> \<exists>roles. Value (Context r') UserRolesKey = Some (AnyStringSlice roles)
                              \<and> GetUserRolesFromContext (Context r') = (roles, True)))
 \<and> (\<exists>d. (\<forall>next. RequireRole demo_library guard 2000 ''admin'' next fresh
                 (request_with (''Bearer '' @ alice_token)) = enact d next fresh)
        \<and> denied_with d \<in> {None, Some StatusUnauthorized, Some StatusForbidden})
 \<and> (\<exists>d. (\<forall>next. RequireAnyRole demo_library guard 2000 [''admin'', ''user''] next fresh
                 (request_with (''Bearer '' @ alice_token)) = enact d next fresh)
        \<and> denied_with d \<in> {None, Some StatusUnauthorized, Some StatusForbidden})
 \<and> StatusInternalServerError \<notin> {StatusUnauthorized, StatusForbidden}"
  by (rule role_check_finds_roles)

text \<open>
  Claim C10 fails on the source as it is stated, for every request: a request
  without \<open>Authorization\<close> header to the guard with no allowed role is answered
  with 401, not with 403.
\<close>

theorem empty_any_role_guard_unauthenticated:
  "StatusCode (RequireAnyRole demo_library guard 2000 [] operation fresh request_without)
     = Some 401
   \<and> StatusCode (RequireAnyRole demo_library guard 2000 [] operation fresh request_without)
     \<noteq> Some StatusForbidden"
  by (simp add: RequireAnyRole_def RequireAuth_def request_without_def Header_Get_def
        http_Error_def WriteHeader_def fresh_def StatusUnauthorized_def StatusForbidden_def)

text \<open>
  Claim C10, amended. The guard \<open>RequireAnyRole\<close> with an empty list of allowed
  roles never calls the wrapped operation: it answers with an error that does
  not depend on the operation, with the status 403 exactly when the request
  passes authentication (whatever the roles of the principal) and with the
  status 401 otherwise.
\<close>

theorem empty_any_role_guard:
  "\<exists>msg code. (\<forall>next. RequireAnyRole L m now [] next w r = http_Error w msg code)
      \<and> (code = StatusUnauthorized \<or> code = StatusForbidden)
      \<and> (code = StatusForbidden \<longleftrightarrow>
           (\<exists>tok c. bearer (Header_Get (Header r) ''Authorization'') tok
                \<and> ValidateToken L (jwtService m) now tok = Inr c))"
proof (cases rule: RequireAuth_cases [of L m now w r])
  case missing
  then show ?thesis
    by (intro exI [of _ "''Authorization header required''"] exI [of _ StatusUnauthorized])
       (simp add: RequireAnyRole_def Statuses_differ)
next
  case format
  then show ?thesis
    by (intro exI [of _ "''Invalid authorization header format''"] exI [of _ StatusUnauthorized])
       (simp add: RequireAnyRole_def Statuses_differ)
next
  case (invalid tok e)
  have "\<not> (\<exists>tok c. bearer (Header_Get (Header r) ''Authorization'') tok
                \<and> ValidateToken L (jwtService m) now tok = Inr c)"
    using invalid(1,2) bearer_unique by fastforce
  with invalid(3) show ?thesis
    by (intro exI [of _ "''Invalid or expired token''"] exI [of _ StatusUnauthorized])
       (simp add: RequireAnyRole_def Statuses_differ)
next
  case (valid tok c)
  have "\<exists>tok c. bearer (Header_Get (Header r) ''Authorization'') tok
                \<and> ValidateToken L (jwtService m) now tok = Inr c"
    using valid(1,2) by blast
  with valid(3) show ?thesis
    by (intro exI [of _ "''Insufficient permissions''"] exI [of _ StatusForbidden])
       (simp add: RequireAnyRole_def RequireAnyRole_handler_roles [OF Value_authenticated_roles])
qed

theorem empty_any_role_guard_witness:
  "bearer (Header_Get (Header (request_with (''Bearer '' @ alice_token))) ''Authorization'')
     alice_token
   \<and> ValidateToken demo_library (jwtService guard) 2000 alice_token =
       Inr (GenerateToken_claims 1000 alice)
   \<and> StatusCode (RequireAnyRole demo_library guard 2000 [] operation fresh
                   (request_with (''Bearer '' @ alice_token))) = Some 403"
proof -
  have v: "ValidateToken demo_library (jwtService guard) 2000 alice_token =
       Inr (GenerateToken_claims 1000 alice)"
    using demo_validate by (simp add: demo_guard)
  from empty_any_role_guard [of demo_library guard 2000 fresh
      "request_with (''Bearer '' @ alice_token)"]
  obtain msg code where
    e: "\<forall>next. RequireAnyRole demo_library guard 2000 [] next fresh
           (request_with (''Bearer '' @ alice_token)) = http_Error fresh msg code"
    and c: "code = StatusForbidden \<longleftrightarrow>
           (\<exists>tok c. bearer (Header_Get (Header (request_with (''Bearer '' @ alice_token)))
                       ''Authorization'') tok
                \<and> ValidateToken demo_library (jwtService guard) 2000 tok = Inr c)"
    by blast
  from c demo_bearer v have "code = StatusForbidden" by blast
  with e have "StatusCode (RequireAnyRole demo_library guard 2000 [] operation fresh
                   (request_with (''Bearer '' @ alice_token))) = Some 403"
    by (simp add: http_Error_def WriteHeader_def fresh_def StatusForbidden_def)
  with demo_bearer v show ?thesis by (intro conjI)
qed

end
